theory Spec2Isabelle
  imports
    Main
    "HOL-Library.Char_ord"
    "HOL-Library.List_Lexorder"
    "HOL-Library.Product_Lexorder"
    "HOL-Library.Multiset"
begin

section \<open>Runtime values used by finance\_tracker.py\<close>

text \<open>
  The exceptions the modelled code can raise. \<open>OSError\<close> stands for a file that
  cannot be opened (\<open>FileNotFoundError\<close> is one of its subclasses).
\<close>

datatype error = ValueError | IndexError | OSError | StopIteration | AttributeError

subsection \<open>Strings\<close>

text \<open>
  Python strings are modelled as \<^typ>\<open>string\<close>; \<open><\<close> on strings is the
  lexicographic order on character codes, as Python's comparison of \<open>str\<close> is.
  \<open>str.lower\<close> and \<open>str.strip\<close> are modelled on ASCII.
\<close>

definition lower_char :: "char \<Rightarrow> char" where
  "lower_char c =
     (if CHR ''A'' \<le> c \<and> c \<le> CHR ''Z'' then char_of (of_char c + (32::nat)) else c)"

definition lower :: "string \<Rightarrow> string" where
  "lower s = map lower_char s"

definition is_space :: "char \<Rightarrow> bool" where
  "is_space c = (of_char c \<in> {9, 10, 11, 12, 13, 28, 29, 30, 31, 32::nat})"

definition strip :: "string \<Rightarrow> string" where
  "strip s = rev (dropWhile is_space (rev (dropWhile is_space s)))"

definition endswith :: "string \<Rightarrow> string \<Rightarrow> bool" where
  "endswith s suffix =
     (length suffix \<le> length s \<and> drop (length s - length suffix) s = suffix)"

definition is_digit :: "char \<Rightarrow> bool" where
  "is_digit c = (CHR ''0'' \<le> c \<and> c \<le> CHR ''9'')"

definition digit_val :: "char \<Rightarrow> nat" where
  "digit_val c = of_char c - 48"

definition digit_char :: "nat \<Rightarrow> char" where
  "digit_char n = char_of (48 + n)"

text \<open>\<open>str(n)\<close> for a non-negative integer: its decimal digits.\<close>

fun str_nat :: "nat \<Rightarrow> string" where
  "str_nat n = (if n < 10 then [digit_char n] else str_nat (n div 10) @ [digit_char (n mod 10)])"

declare str_nat.simps [simp del]

subsection \<open>Dates\<close>

text \<open>
  A \<open>datetime\<close> produced by \<open>datetime.strptime(s, "%Y-%m-%d")\<close> has all its time
  fields zero, so it is modelled by its (year, month, day); Python compares datetimes
  field by field in this order, which is the lexicographic order on the triple.
\<close>

type_synonym datetime = "nat \<times> nat \<times> nat"

definition year :: "datetime \<Rightarrow> nat" where
  "year d = fst d"

definition month :: "datetime \<Rightarrow> nat" where
  "month d = fst (snd d)"

definition day :: "datetime \<Rightarrow> nat" where
  "day d = snd (snd d)"

definition is_leap :: "nat \<Rightarrow> bool" where
  "is_leap y = (y mod 4 = 0 \<and> (y mod 100 \<noteq> 0 \<or> y mod 400 = 0))"

definition days_in_month :: "nat \<Rightarrow> nat \<Rightarrow> nat" where
  "days_in_month y m =
     (if m = 2 then (if is_leap y then 29 else 28)
      else if m \<in> {4, 6, 9, 11} then 30 else 31)"

definition valid_date :: "datetime \<Rightarrow> bool" where
  "valid_date d =
     (1 \<le> year d \<and> year d \<le> 9999 \<and> 1 \<le> month d \<and> month d \<le> 12 \<and>
      1 \<le> day d \<and> day d \<le> days_in_month (year d) (month d))"

text \<open>
  The month field of \<open>%m\<close>: the alternatives \<open>1[0-2]\<close>, \<open>0[1-9]\<close>, \<open>[1-9]\<close> in
  this order, each followed by the \<open>-\<close> of the format. The result is the month and
  the text after the \<open>-\<close>.
\<close>

definition parse_month :: "string \<Rightarrow> (nat \<times> string) option" where
  "parse_month s =
     (case s of
        a # b # c # r \<Rightarrow>
          if a = CHR ''1'' \<and> b \<in> {CHR ''0'', CHR ''1'', CHR ''2''} \<and> c = CHR ''-''
            then Some (10 + digit_val b, r)
          else if a = CHR ''0'' \<and> is_digit b \<and> b \<noteq> CHR ''0'' \<and> c = CHR ''-''
            then Some (digit_val b, r)
          else if is_digit a \<and> a \<noteq> CHR ''0'' \<and> b = CHR ''-''
            then Some (digit_val a, c # r)
          else None
      | [a, b] \<Rightarrow>
          if is_digit a \<and> a \<noteq> CHR ''0'' \<and> b = CHR ''-'' then Some (digit_val a, [])
          else None
      | _ \<Rightarrow> None)"

text \<open>
  The day field of \<open>%d\<close>, which ends the format: \<open>3[01]\<close>, \<open>[12]\d\<close>,
  \<open>0[1-9]\<close>, \<open>[1-9]\<close> or a blank and \<open>[1-9]\<close>; text left over after the field is
  "unconverted data" and a \<open>ValueError\<close>.
\<close>

definition parse_day :: "string \<Rightarrow> nat option" where
  "parse_day s =
     (case s of
        [a] \<Rightarrow> if is_digit a \<and> a \<noteq> CHR ''0'' then Some (digit_val a) else None
      | [a, b] \<Rightarrow>
          if a = CHR ''3'' \<and> b \<in> {CHR ''0'', CHR ''1''} then Some (30 + digit_val b)
          else if a \<in> {CHR ''1'', CHR ''2''} \<and> is_digit b
            then Some (10 * digit_val a + digit_val b)
          else if a = CHR ''0'' \<and> is_digit b \<and> b \<noteq> CHR ''0'' then Some (digit_val b)
          else if a = CHR '' '' \<and> is_digit b \<and> b \<noteq> CHR ''0'' then Some (digit_val b)
          else None
      | _ \<Rightarrow> None)"

text \<open>
  \<open>datetime.strptime(s, "%Y-%m-%d")\<close>: four digits, \<open>-\<close>, month, \<open>-\<close>, day, and
  the date must exist (year 0 and 30 February are refused). \<open>None\<close> is the
  \<open>ValueError\<close>.
\<close>

definition strptime :: "string \<Rightarrow> datetime option" where
  "strptime s =
     (case s of
        y1 # y2 # y3 # y4 # h # rest \<Rightarrow>
          if is_digit y1 \<and> is_digit y2 \<and> is_digit y3 \<and> is_digit y4 \<and> h = CHR ''-''
          then (case parse_month rest of
                  None \<Rightarrow> None
                | Some (m, rest') \<Rightarrow>
                    (case parse_day rest' of
                       None \<Rightarrow> None
                     | Some d \<Rightarrow>
                         let y = 1000 * digit_val y1 + 100 * digit_val y2
                                 + 10 * digit_val y3 + digit_val y4
                         in if valid_date (y, m, d) then Some (y, m, d) else None))
          else None
      | _ \<Rightarrow> None)"



subsection \<open>Dictionaries\<close>

text \<open>
  A Python \<open>dict\<close> keeps its keys in insertion order, and the order is what the report
  writes, so a dictionary is the list of its items, with distinct keys.
\<close>

type_synonym ('k, 'v) dict = "('k \<times> 'v) list"

text \<open>\<open>d[k] = v\<close>: an existing key keeps its place, a new one goes last.\<close>

fun dict_set :: "('k, 'v) dict \<Rightarrow> 'k \<Rightarrow> 'v \<Rightarrow> ('k, 'v) dict" where
  "dict_set [] k v = [(k, v)]"
| "dict_set ((k', v') # d) k v =
     (if k' = k then (k', v) # d else (k', v') # dict_set d k v)"

text \<open>\<open>if k in d: d[k] += v else: d[k] = v\<close>, the grouping step of every aggregate.\<close>

definition dict_add :: "('k, 'v::plus) dict \<Rightarrow> 'k \<Rightarrow> 'v \<Rightarrow> ('k, 'v) dict" where
  "dict_add d k v =
     (case map_of d k of
        Some old \<Rightarrow> dict_set d k (old + v)
      | None \<Rightarrow> dict_set d k v)"

text \<open>
  \<open>dict(sorted(d.items()))\<close>. The items are (key, value) tuples; the keys of a
  dictionary are distinct, so the comparison of two items is decided by their keys.
  \<open>sorted\<close> is stable, as \<^const>\<open>sort_key\<close> is.
\<close>

definition dict_of_items :: "('k \<times> 'v) list \<Rightarrow> ('k, 'v) dict" where
  "dict_of_items its = foldl (\<lambda>d (k, v). dict_set d k v) [] its"

definition sorted_dict :: "('k::linorder, 'v) dict \<Rightarrow> ('k, 'v) dict" where
  "sorted_dict d = dict_of_items (sort_key fst d)"

section \<open>Transaction\<close>

text \<open>
  The amount is a Python \<open>float\<close>. The model is polymorphic in the type of amounts
  and uses only the operations the code uses (\<open>0\<close>, \<open>+\<close>, \<open>-\<close>), with no law
  assumed about them.
\<close>

record 'a Transaction =
  date :: datetime
  txn_type :: string
  amount :: 'a
  category :: string

text \<open>\<open>Transaction.__init__\<close>: only the date is parsed, only the type is normalised.\<close>

definition Transaction_init ::
  "string \<Rightarrow> string \<Rightarrow> 'a \<Rightarrow> string \<Rightarrow> error + 'a Transaction" where
  "Transaction_init date_str type_str amt cat =
     (case strptime date_str of
        None \<Rightarrow> Inl ValueError
      | Some d \<Rightarrow>
          Inr \<lparr>date = d, txn_type = lower (strip type_str), amount = amt, category = cat\<rparr>)"

section \<open>FinanceTracker\<close>

record 'a FinanceTracker =
  transactions :: "'a Transaction list"

definition FinanceTracker_init :: "'a FinanceTracker" where
  "FinanceTracker_init = \<lparr>transactions = []\<rparr>"

definition add_transaction :: "'a FinanceTracker \<Rightarrow> 'a Transaction \<Rightarrow> 'a FinanceTracker" where
  "add_transaction self transaction =
     self\<lparr>transactions := transactions self @ [transaction]\<rparr>"

text \<open>
  The three totals return a string: the parameter \<open>fmt\<close> is the formatting
  \<open>f"{x:.2f}"\<close> of the result.
\<close>

definition balance_loop :: "'a::{zero,plus} Transaction list \<Rightarrow> 'a \<times> 'a" where
  "balance_loop txns =
     foldl (\<lambda>(income, expense) transaction.
              if txn_type transaction = ''income''
                then (income + amount transaction, expense)
              else if txn_type transaction = ''expense''
                then (income, expense + amount transaction)
              else (income, expense))
       (0, 0) txns"

definition calc_current_balance ::
  "('a::{zero,plus,minus} \<Rightarrow> string) \<Rightarrow> 'a FinanceTracker \<Rightarrow> string" where
  "calc_current_balance fmt self =
     (case balance_loop (transactions self) of (income, expense) \<Rightarrow> fmt (income - expense))"

definition income_loop :: "'a::{zero,plus} Transaction list \<Rightarrow> 'a" where
  "income_loop txns =
     foldl (\<lambda>income transaction.
              if txn_type transaction = ''income'' then income + amount transaction
              else income)
       0 txns"

definition get_total_income :: "('a::{zero,plus} \<Rightarrow> string) \<Rightarrow> 'a FinanceTracker \<Rightarrow> string" where
  "get_total_income fmt self = fmt (income_loop (transactions self))"

definition expense_loop :: "'a::{zero,plus} Transaction list \<Rightarrow> 'a" where
  "expense_loop txns =
     foldl (\<lambda>expense transaction.
              if txn_type transaction = ''expense'' then expense + amount transaction
              else expense)
       0 txns"

definition get_total_expenses :: "('a::{zero,plus} \<Rightarrow> string) \<Rightarrow> 'a FinanceTracker \<Rightarrow> string" where
  "get_total_expenses fmt self = fmt (expense_loop (transactions self))"

definition category_filter :: "'a FinanceTracker \<Rightarrow> string \<Rightarrow> 'a Transaction list" where
  "category_filter self cat =
     foldl (\<lambda>category_list transaction.
              if category transaction = cat then category_list @ [transaction]
              else category_list)
       [] (transactions self)"

text \<open>
  The date strings are parsed inside the loop, once for every transaction that reaches
  the test: a string that does not parse raises there, and is never looked at when no
  transaction reaches it. \<open>date2\<close> is \<open>None\<close> when the end date is omitted.
\<close>

definition date_test :: "string \<Rightarrow> string option \<Rightarrow> 'a Transaction \<Rightarrow> error + bool" where
  "date_test date1 date2 transaction =
     (case date2 of
        None \<Rightarrow>
          (case strptime date1 of
             None \<Rightarrow> Inl ValueError
           | Some d \<Rightarrow> Inr (date transaction = d))
      | Some date2' \<Rightarrow>
          (case strptime date1 of
             None \<Rightarrow> Inl ValueError
           | Some start \<Rightarrow>
               (case strptime date2' of
                  None \<Rightarrow> Inl ValueError
                | Some stop \<Rightarrow> Inr (start \<le> date transaction \<and> date transaction \<le> stop))))"

fun date_loop ::
  "('a Transaction \<Rightarrow> bool) \<Rightarrow> string \<Rightarrow> string option \<Rightarrow> 'a Transaction list \<Rightarrow>
   'a Transaction list \<Rightarrow> error + 'a Transaction list" where
  "date_loop guard date1 date2 [] date_list = Inr date_list"
| "date_loop guard date1 date2 (transaction # rest) date_list =
     (if guard transaction
      then (case date_test date1 date2 transaction of
              Inl e \<Rightarrow> Inl e
            | Inr True \<Rightarrow> date_loop guard date1 date2 rest (date_list @ [transaction])
            | Inr False \<Rightarrow> date_loop guard date1 date2 rest date_list)
      else date_loop guard date1 date2 rest date_list)"

definition sorted_by_date :: "error + 'a Transaction list \<Rightarrow> error + 'a Transaction list" where
  "sorted_by_date r = (case r of Inl e \<Rightarrow> Inl e | Inr date_list \<Rightarrow> Inr (sort_key date date_list))"

definition date_filter ::
  "'a FinanceTracker \<Rightarrow> string \<Rightarrow> string option \<Rightarrow> error + 'a Transaction list" where
  "date_filter self date1 date2 =
     sorted_by_date (date_loop (\<lambda>transaction. True) date1 date2 (transactions self) [])"





section \<open>Storage\<close>

text \<open>
  What the code takes from outside the repository: the rows \<open>csv.reader\<close> yields for a
  file and a delimiter (\<open>None\<close> when the file cannot be opened), \<open>float(s)\<close>
  (\<open>None\<close> for its \<open>ValueError\<close>), \<open>round(x, 2)\<close> and the formatting
  \<open>f"{x:.2f}"\<close>.
\<close>

record 'a env =
  csv_reader :: "string \<Rightarrow> char \<Rightarrow> string list list option"
  float_of :: "string \<Rightarrow> 'a option"
  round2 :: "'a \<Rightarrow> 'a"
  format2f :: "'a \<Rightarrow> string"

text \<open>Running one step after another, an exception ending the sequence.\<close>

definition and_then :: "error + 'x \<Rightarrow> ('x \<Rightarrow> error + 'y) \<Rightarrow> error + 'y" where
  "and_then r f = (case r of Inl e \<Rightarrow> Inl e | Inr x \<Rightarrow> f x)"

text \<open>\<open>line[i]\<close> of a row.\<close>

definition field :: "string list \<Rightarrow> nat \<Rightarrow> error + string" where
  "field line i = (if i < length line then Inr (line ! i) else Inl IndexError)"

fun read_rows ::
  "'a env \<Rightarrow> string list list \<Rightarrow> 'a FinanceTracker \<Rightarrow> error + 'a FinanceTracker" where
  "read_rows env [] tr = Inr tr"
| "read_rows env (line # rest) tr =
     and_then (field line 0) (\<lambda>date_str.
     and_then (field line 1) (\<lambda>type_str.
     and_then (field line 2) (\<lambda>amount_str.
     and_then (case float_of env amount_str of
                 None \<Rightarrow> Inl ValueError
               | Some x \<Rightarrow> Inr (round2 env x)) (\<lambda>amt.
     and_then (field line 3) (\<lambda>cat.
     and_then (Transaction_init date_str type_str amt cat) (\<lambda>read_txn.
       read_rows env rest (add_transaction tr read_txn)))))))"

text \<open>
  \<open>Storage.read_transaction\<close>: \<open>next(csv_reader)\<close> skips the header row and raises
  \<open>StopIteration\<close> on a file with no row; a file name that ends neither in
  \<open>.csv\<close> nor in \<open>.tsv\<close> reads nothing.
\<close>

definition read_file ::
  "'a env \<Rightarrow> string \<Rightarrow> char \<Rightarrow> 'a FinanceTracker \<Rightarrow> error + 'a FinanceTracker" where
  "read_file env name delimiter tr =
     (case csv_reader env name delimiter of
        None \<Rightarrow> Inl OSError
      | Some [] \<Rightarrow> Inl StopIteration
      | Some (header # rows) \<Rightarrow> read_rows env rows tr)"

definition read_transaction ::
  "'a env \<Rightarrow> 'a FinanceTracker \<Rightarrow> string \<Rightarrow> error + 'a FinanceTracker" where
  "read_transaction env tr name =
     (if endswith (lower name) ''.csv'' then read_file env name CHR '','' tr
      else if endswith (lower name) ''.tsv'' then read_file env name (CHR 0x09) tr
      else Inr tr)"

section \<open>ReportingAndAnalysis\<close>

record 'a ReportingAndAnalysis =
  filename :: "string option"
  tracker :: "'a FinanceTracker"
  use_file :: bool

text \<open>
  Every method returns its result together with the object after the call, or the
  exception raised. \<open>filename\<close> is \<open>None\<close> in the object \<open>main\<close> builds with
  \<open>use_file=False\<close>.
\<close>

definition sync_transactions ::
  "'a env \<Rightarrow> 'a ReportingAndAnalysis \<Rightarrow> error + 'a ReportingAndAnalysis" where
  "sync_transactions env self =
     (if use_file self
      then (case filename self of
              None \<Rightarrow> Inl AttributeError
            | Some name \<Rightarrow>
                and_then (read_transaction env ((tracker self)\<lparr>transactions := []\<rparr>) name)
                  (\<lambda>tr. Inr (self\<lparr>tracker := tr\<rparr>)))
      else Inr self)"

definition monthly_basis_loop ::
  "string \<Rightarrow> 'a::plus Transaction list \<Rightarrow> (nat \<times> nat, 'a) dict" where
  "monthly_basis_loop type_str all_txn =
     foldl (\<lambda>months_dict txn.
              let tuple_date = (year (date txn), month (date txn))
              in if txn_type txn = type_str
                 then dict_add months_dict tuple_date (amount txn)
                 else months_dict)
       [] all_txn"

definition monthly_basis ::
  "'a::plus env \<Rightarrow> 'a ReportingAndAnalysis \<Rightarrow> string \<Rightarrow>
   error + ((nat \<times> nat, 'a) dict \<times> 'a ReportingAndAnalysis)" where
  "monthly_basis env self type_str =
     and_then (sync_transactions env self) (\<lambda>self.
       Inr (sorted_dict (monthly_basis_loop type_str (transactions (tracker self))), self))"

definition monthly_income ::
  "'a::plus env \<Rightarrow> 'a ReportingAndAnalysis \<Rightarrow>
   error + ((nat \<times> nat, 'a) dict \<times> 'a ReportingAndAnalysis)" where
  "monthly_income env self = monthly_basis env self ''income''"

definition monthly_expenses ::
  "'a::plus env \<Rightarrow> 'a ReportingAndAnalysis \<Rightarrow>
   error + ((nat \<times> nat, 'a) dict \<times> 'a ReportingAndAnalysis)" where
  "monthly_expenses env self = monthly_basis env self ''expense''"

definition net_savings_loop ::
  "('k, 'a::minus) dict \<Rightarrow> ('k, 'a) dict \<Rightarrow> ('k, 'a) dict" where
  "net_savings_loop income_dict expenses_dict =
     foldl (\<lambda>months_dict (tuple_1, income).
              foldl (\<lambda>months_dict (tuple_2, expense).
                       if tuple_1 = tuple_2
                       then dict_set months_dict tuple_1 (income - expense)
                       else months_dict)
                months_dict expenses_dict)
       [] income_dict"

definition monthly_net_savings ::
  "'a::{plus,minus} env \<Rightarrow> 'a ReportingAndAnalysis \<Rightarrow>
   error + ((nat \<times> nat, 'a) dict \<times> 'a ReportingAndAnalysis)" where
  "monthly_net_savings env self =
     and_then (monthly_income env self) (\<lambda>(income_dict, self).
     and_then (monthly_expenses env self) (\<lambda>(expenses_dict, self).
       Inr (sorted_dict (net_savings_loop income_dict expenses_dict), self)))"

definition monthly_categories_basis_loop ::
  "string \<Rightarrow> 'a::plus Transaction list \<Rightarrow> ((nat \<times> nat) \<times> string, 'a) dict" where
  "monthly_categories_basis_loop type_str all_txn =
     foldl (\<lambda>months_dict txn.
              let tuple_1 = (year (date txn), month (date txn));
                  tuple_2 = (tuple_1, category txn)
              in if txn_type txn = type_str
                 then dict_add months_dict tuple_2 (amount txn)
                 else months_dict)
       [] all_txn"

definition monthly_categories_basis ::
  "'a::plus env \<Rightarrow> 'a ReportingAndAnalysis \<Rightarrow> string \<Rightarrow>
   error + (((nat \<times> nat) \<times> string, 'a) dict \<times> 'a ReportingAndAnalysis)" where
  "monthly_categories_basis env self type_str =
     and_then (sync_transactions env self) (\<lambda>self.
       Inr (sorted_dict (monthly_categories_basis_loop type_str (transactions (tracker self))),
            self))"

definition monthly_income_categories ::
  "'a::plus env \<Rightarrow> 'a ReportingAndAnalysis \<Rightarrow>
   error + (((nat \<times> nat) \<times> string, 'a) dict \<times> 'a ReportingAndAnalysis)" where
  "monthly_income_categories env self = monthly_categories_basis env self ''income''"

definition monthly_expenses_categories ::
  "'a::plus env \<Rightarrow> 'a ReportingAndAnalysis \<Rightarrow>
   error + (((nat \<times> nat) \<times> string, 'a) dict \<times> 'a ReportingAndAnalysis)" where
  "monthly_expenses_categories env self = monthly_categories_basis env self ''expense''"

definition totals_loop :: "string \<Rightarrow> 'a::plus Transaction list \<Rightarrow> (string, 'a) dict" where
  "totals_loop type_str all_txn =
     foldl (\<lambda>txn_dict txn.
              if txn_type txn = type_str
              then dict_add txn_dict (category txn) (amount txn)
              else txn_dict)
       [] all_txn"

definition totals_each_txn_type_category ::
  "'a::plus env \<Rightarrow> 'a ReportingAndAnalysis \<Rightarrow> string \<Rightarrow>
   error + ((string, 'a) dict \<times> 'a ReportingAndAnalysis)" where
  "totals_each_txn_type_category env self type_str =
     and_then (sync_transactions env self) (\<lambda>self.
       Inr (sorted_dict (totals_loop type_str (transactions (tracker self))), self))"

definition totals_each_income_category ::
  "'a::plus env \<Rightarrow> 'a ReportingAndAnalysis \<Rightarrow>
   error + ((string, 'a) dict \<times> 'a ReportingAndAnalysis)" where
  "totals_each_income_category env self = totals_each_txn_type_category env self ''income''"

definition totals_each_expense_category ::
  "'a::plus env \<Rightarrow> 'a ReportingAndAnalysis \<Rightarrow>
   error + ((string, 'a) dict \<times> 'a ReportingAndAnalysis)" where
  "totals_each_expense_category env self = totals_each_txn_type_category env self ''expense''"

subsection \<open>The analysis report\<close>












section \<open>Example ledgers\<close>

text \<open>
  Concrete objects on which the results below are evaluated: amounts in whole currency
  units, no file, and the first end-to-end scenario of the specification.
\<close>

definition whole_format :: "int \<Rightarrow> string" where
  "whole_format x = (if x < 0 then ''-'' else []) @ str_nat (nat \<bar>x\<bar>) @ ''.00''"

definition no_files :: "int env" where
  "no_files =
     \<lparr>csv_reader = (\<lambda>name delimiter. None), float_of = (\<lambda>s. None), round2 = (\<lambda>x. x),
      format2f = whole_format\<rparr>"

definition scenario_1 :: "int ReportingAndAnalysis" where
  "scenario_1 =
     \<lparr>filename = None,
      tracker = \<lparr>transactions =
        [\<lparr>date = (2024, 1, 5), txn_type = ''income'', amount = 1000, category = ''salary''\<rparr>,
         \<lparr>date = (2024, 1, 10), txn_type = ''expense'', amount = 200, category = ''food''\<rparr>,
         \<lparr>date = (2024, 2, 1), txn_type = ''income'', amount = 1000, category = ''salary''\<rparr>]\<rparr>,
      use_file = False\<rparr>"

definition mixed_case :: "int ReportingAndAnalysis" where
  "mixed_case =
     \<lparr>filename = None,
      tracker = \<lparr>transactions =
        [\<lparr>date = (2024, 1, 5), txn_type = ''income'', amount = 1500, category = ''apple''\<rparr>,
         \<lparr>date = (2024, 1, 9), txn_type = ''income'', amount = 300, category = ''Zebra''\<rparr>]\<rparr>,
      use_file = False\<rparr>"

text \<open>
  A ledger kept in a file: \<open>ledger.csv\<close> has a header row and two income rows whose
  categories are \<open>apple\<close> and \<open>Zebra\<close>. Its amounts are whole numbers, and
  \<open>whole_float\<close> is \<open>float\<close> on such strings.
\<close>

definition whole_float :: "string \<Rightarrow> int option" where
  "whole_float s =
     (if s \<noteq> [] \<and> list_all is_digit s
      then Some (int (foldl (\<lambda>n c. 10 * n + digit_val c) 0 s)) else None)"

definition one_file :: "int env" where
  "one_file =
     \<lparr>csv_reader = (\<lambda>name delimiter.
        if name = ''ledger.csv'' \<and> delimiter = CHR '',''
        then Some [[''Date'', ''Txn Type'', ''Amount'', ''Category''],
                   [''2024-01-05'', ''Income'', ''1500'', ''apple''],
                   [''2024-01-09'', ''income '', ''300'', ''Zebra'']]
        else None),
      float_of = whole_float, round2 = (\<lambda>x. x), format2f = whole_format\<rparr>"

definition from_file :: "int ReportingAndAnalysis" where
  "from_file =
     \<lparr>filename = Some ''ledger.csv'', tracker = \<lparr>transactions = []\<rparr>, use_file = True\<rparr>"

section \<open>Dictionaries and the grouping loops\<close>

lemma map_of_dict_set: "map_of (dict_set d k v) = (map_of d)(k \<mapsto> v)"
  by (induction d) (auto simp: fun_eq_iff)

lemma keys_dict_set:
  "map fst (dict_set d k v) = (if k \<in> set (map fst d) then map fst d else map fst d @ [k])"
  by (induction d) force+


lemma distinct_dict_set: "distinct (map fst d) \<Longrightarrow> distinct (map fst (dict_set d k v))"
  by (simp add: keys_dict_set)

lemma dict_set_new: "k \<notin> set (map fst d) \<Longrightarrow> dict_set d k v = d @ [(k, v)]"
  by (induction d) auto

lemma map_of_dict_add:
  "map_of (dict_add d k v)
   = (map_of d)(k \<mapsto> (case map_of d k of Some old \<Rightarrow> old + v | None \<Rightarrow> v))"
  by (simp add: dict_add_def map_of_dict_set split: option.split)


lemma distinct_dict_add: "distinct (map fst d) \<Longrightarrow> distinct (map fst (dict_add d k v))"
  by (simp add: dict_add_def distinct_dict_set split: option.split)

lemma dict_of_items_acc:
  "distinct (map fst (acc @ its)) \<Longrightarrow> foldl (\<lambda>d (k, v). dict_set d k v) acc its = acc @ its"
proof (induction its arbitrary: acc)
  case Nil
  then show ?case by simp
next
  case (Cons kv its)
  obtain k v where kv: "kv = (k, v)" by (cases kv)
  from Cons.prems kv have new: "k \<notin> set (map fst acc)" by auto
  from Cons.prems kv have "distinct (map fst ((acc @ [(k, v)]) @ its))" by simp
  from Cons.IH [OF this] show ?case by (simp add: kv dict_set_new [OF new])
qed

lemma dict_of_items_distinct: "distinct (map fst its) \<Longrightarrow> dict_of_items its = its"
  using dict_of_items_acc [of "[]" its] by (simp add: dict_of_items_def)

lemma distinct_keys_sort_key:
  "distinct (map fst (sort_key fst d)) = distinct (map fst d)"
proof -
  have "mset (map fst (sort_key fst d)) = mset (map fst d)"
    by simp
  then show ?thesis by (rule mset_eq_imp_distinct_iff)
qed

lemma sorted_dict_distinct:
  assumes "distinct (map fst d)"
  shows "sorted_dict d = sort_key fst d"
proof -
  have "distinct (map fst (sort_key fst d))"
    using assms by (simp add: distinct_keys_sort_key)
  then show ?thesis by (simp add: sorted_dict_def dict_of_items_distinct)
qed

lemma distinct_sorted_dict: "distinct (map fst d) \<Longrightarrow> distinct (map fst (sorted_dict d))"
  by (simp add: sorted_dict_distinct distinct_keys_sort_key)

lemma strict_sorted_dict:
  "distinct (map fst d) \<Longrightarrow> sorted_wrt (<) (map fst (sorted_dict d))"
  by (simp add: sorted_dict_distinct distinct_keys_sort_key strict_sorted_iff)

lemma set_sorted_dict: "distinct (map fst d) \<Longrightarrow> set (sorted_dict d) = set d"
  by (simp add: sorted_dict_distinct)

lemma map_of_sorted_dict: "distinct (map fst d) \<Longrightarrow> map_of (sorted_dict d) = map_of d"
  by (rule map_of_inject_set [THEN iffD2])
     (simp_all add: distinct_sorted_dict set_sorted_dict)

lemma sync_idem:
  assumes "sync_transactions env self = Inr self'"
  shows "sync_transactions env self' = Inr self'"
proof (cases "use_file self")
  case False
  with assms show ?thesis by (simp add: sync_transactions_def)
next
  case True
  with assms obtain name tr where
    n: "filename self = Some name" and
    r: "read_transaction env ((tracker self)\<lparr>transactions := []\<rparr>) name = Inr tr" and
    s: "self' = self\<lparr>tracker := tr\<rparr>"
    by (auto simp: sync_transactions_def and_then_def split: option.splits sum.splits)
  have eq: "tr\<lparr>transactions := []\<rparr> = (tracker self)\<lparr>transactions := []\<rparr>"
    by simp
  from True n r s show ?thesis
    by (simp add: sync_transactions_def and_then_def eq)
qed

lemma sync_no_file: "\<not> use_file self \<Longrightarrow> sync_transactions env self = Inr self"
  by (simp add: sync_transactions_def)

lemma monthly_basis_synced:
  "sync_transactions env self = Inr self' \<Longrightarrow>
   monthly_basis env self type_str
   = Inr (sorted_dict (monthly_basis_loop type_str (transactions (tracker self'))), self')"
  by (simp add: monthly_basis_def and_then_def)

lemma monthly_categories_basis_synced:
  "sync_transactions env self = Inr self' \<Longrightarrow>
   monthly_categories_basis env self type_str
   = Inr (sorted_dict (monthly_categories_basis_loop type_str (transactions (tracker self'))),
          self')"
  by (simp add: monthly_categories_basis_def and_then_def)

lemma totals_synced:
  "sync_transactions env self = Inr self' \<Longrightarrow>
   totals_each_txn_type_category env self type_str
   = Inr (sorted_dict (totals_loop type_str (transactions (tracker self'))), self')"
  by (simp add: totals_each_txn_type_category_def and_then_def)

lemma monthly_net_savings_synced:
  assumes "sync_transactions env self = Inr self'"
  shows "monthly_net_savings env self
   = Inr (sorted_dict
            (net_savings_loop
               (sorted_dict (monthly_basis_loop ''income'' (transactions (tracker self'))))
               (sorted_dict (monthly_basis_loop ''expense'' (transactions (tracker self'))))),
          self')"
  by (simp add: monthly_net_savings_def monthly_income_def monthly_expenses_def and_then_def
      monthly_basis_synced [OF assms] monthly_basis_synced [OF sync_idem [OF assms]])

text \<open>Grouping loops keep the keys of the dictionary distinct.\<close>

lemma distinct_group_fold:
  assumes "distinct (map fst acc)"
  shows "distinct (map fst (foldl (\<lambda>d x. if p x then dict_add d (key x) (val x) else d) acc xs))"
  using assms by (induction xs arbitrary: acc) (simp_all add: distinct_dict_add)


lemma monthly_basis_loop_group:
  "monthly_basis_loop type_str txns
   = foldl (\<lambda>d x. if txn_type x = type_str
                   then dict_add d (year (date x), month (date x)) (amount x) else d) [] txns"
  by (simp add: monthly_basis_loop_def Let_def)


lemma distinct_monthly_basis_loop: "distinct (map fst (monthly_basis_loop type_str txns))"
  unfolding monthly_basis_loop_group by (rule distinct_group_fold) simp


lemma distinct_totals_loop: "distinct (map fst (totals_loop type_str txns))"
  unfolding totals_loop_def by (rule distinct_group_fold) simp




text \<open>The nested loop of the net savings.\<close>

lemma net_inner_distinct:
  "distinct (map fst acc) \<Longrightarrow>
   distinct (map fst (foldl (\<lambda>months_dict (tuple_2, expense).
                       if tuple_1 = tuple_2
                       then dict_set months_dict tuple_1 (income - expense)
                       else months_dict) acc expenses_dict))"
  by (induction expenses_dict arbitrary: acc) (auto simp: distinct_dict_set)

lemma net_inner_map_of:
  "distinct (map fst expenses_dict) \<Longrightarrow>
   map_of (foldl (\<lambda>months_dict (tuple_2, expense).
                       if tuple_1 = tuple_2
                       then dict_set months_dict tuple_1 (income - expense)
                       else months_dict) acc expenses_dict)
   = (case map_of expenses_dict tuple_1 of
        Some expense \<Rightarrow> (map_of acc)(tuple_1 \<mapsto> income - expense)
      | None \<Rightarrow> map_of acc)"
proof (induction expenses_dict arbitrary: acc)
  case Nil
  then show ?case by simp
next
  case (Cons kv expenses_dict)
  obtain k e where kv: "kv = (k, e)" by (cases kv)
  from Cons.prems kv have d: "distinct (map fst expenses_dict)" and
    new: "k \<notin> fst ` set expenses_dict" by auto
  let ?step = "\<lambda>months_dict (tuple_2, expense).
                       if tuple_1 = tuple_2
                       then dict_set months_dict tuple_1 (income - expense)
                       else months_dict"
  show ?case
  proof (cases "tuple_1 = k")
    case True
    with new have none: "map_of expenses_dict tuple_1 = None"
      by (simp add: map_of_eq_None_iff)
    have "foldl ?step acc (kv # expenses_dict)
          = foldl ?step (dict_set acc tuple_1 (income - e)) expenses_dict"
      using True by (simp add: kv)
    also have "map_of \<dots> = map_of (dict_set acc tuple_1 (income - e))"
      by (simp add: Cons.IH [OF d] none)
    finally show ?thesis
      using True by (simp add: kv map_of_dict_set)
  next
    case False
    then show ?thesis by (simp add: kv Cons.IH [OF d])
  qed
qed

lemma net_outer_distinct:
  "distinct (map fst acc) \<Longrightarrow>
   distinct (map fst (foldl (\<lambda>months_dict (tuple_1, income).
              foldl (\<lambda>months_dict (tuple_2, expense).
                       if tuple_1 = tuple_2
                       then dict_set months_dict tuple_1 (income - expense)
                       else months_dict)
                months_dict expenses_dict) acc income_dict))"
  by (induction income_dict arbitrary: acc) (auto simp: net_inner_distinct)

lemma net_outer_map_of:
  "distinct (map fst income_dict) \<Longrightarrow> distinct (map fst expenses_dict) \<Longrightarrow>
   map_of (foldl (\<lambda>months_dict (tuple_1, income).
              foldl (\<lambda>months_dict (tuple_2, expense).
                       if tuple_1 = tuple_2
                       then dict_set months_dict tuple_1 (income - expense)
                       else months_dict)
                months_dict expenses_dict) acc income_dict) k
   = (case map_of income_dict k of
        Some income \<Rightarrow>
          (case map_of expenses_dict k of
             Some expense \<Rightarrow> Some (income - expense)
           | None \<Rightarrow> map_of acc k)
      | None \<Rightarrow> map_of acc k)"
proof (induction income_dict arbitrary: acc)
  case Nil
  then show ?case by simp
next
  case (Cons kv income_dict)
  obtain k1 i where kv: "kv = (k1, i)" by (cases kv)
  from Cons.prems kv have d: "distinct (map fst income_dict)" and
    new: "k1 \<notin> fst ` set income_dict" by auto
  from new have none: "map_of income_dict k1 = None"
    by (simp add: map_of_eq_None_iff)
  show ?case
    using none
    by (simp add: kv Cons.IH [OF d Cons.prems(2)] net_inner_map_of [OF Cons.prems(2)]
        split: option.splits)
qed

lemma distinct_net_savings_loop:
  "distinct (map fst (net_savings_loop income_dict expenses_dict))"
  unfolding net_savings_loop_def by (rule net_outer_distinct) simp

lemma map_of_net_savings_loop:
  "distinct (map fst income_dict) \<Longrightarrow> distinct (map fst expenses_dict) \<Longrightarrow>
   map_of (net_savings_loop income_dict expenses_dict) k
   = (case map_of income_dict k of
        Some income \<Rightarrow>
          (case map_of expenses_dict k of
             Some expense \<Rightarrow> Some (income - expense)
           | None \<Rightarrow> None)
      | None \<Rightarrow> None)"
  unfolding net_savings_loop_def by (simp add: net_outer_map_of split: option.splits)

section \<open>The ledger: totals and filters\<close>

lemma balance_loop_acc:
  "foldl (\<lambda>(income, expense) transaction.
              if txn_type transaction = ''income''
                then (income + amount transaction, expense)
              else if txn_type transaction = ''expense''
                then (income, expense + amount transaction)
              else (income, expense)) (i, e) txns
   = (foldl (\<lambda>income transaction.
              if txn_type transaction = ''income'' then income + amount transaction
              else income) i txns,
      foldl (\<lambda>expense transaction.
              if txn_type transaction = ''expense'' then expense + amount transaction
              else expense) e txns)"
  by (induction txns arbitrary: i e) simp_all

lemma balance_loop_split: "balance_loop txns = (income_loop txns, expense_loop txns)"
  unfolding balance_loop_def income_loop_def expense_loop_def by (rule balance_loop_acc)

text \<open>
  Claim C2. For every ledger there are two amounts, the total income and the total
  expenses, such that \<open>get_total_income\<close> and \<open>get_total_expenses\<close> return them
  formatted and \<open>calc_current_balance\<close> returns their difference formatted: the balance
  is the total income minus the total expenses exactly, up to the formatting each of the
  three functions applies to its result. This holds for any formatting and for any
  arithmetic on the amounts, floating point included, since the balance sums the same
  amounts in the same order as the two totals.
\<close>

theorem balance_is_income_minus_expenses:
  "\<exists>income expense.
     (\<forall>fmt. get_total_income fmt self = fmt income) \<and>
     (\<forall>fmt. get_total_expenses fmt self = fmt expense) \<and>
     (\<forall>fmt. calc_current_balance fmt self = fmt (income - expense))"
proof (intro exI conjI allI)
  fix fmt :: "'a \<Rightarrow> string"
  show "get_total_income fmt self = fmt (income_loop (transactions self))"
    by (simp add: get_total_income_def)
  show "get_total_expenses fmt self = fmt (expense_loop (transactions self))"
    by (simp add: get_total_expenses_def)
  show "calc_current_balance fmt self
        = fmt (income_loop (transactions self) - expense_loop (transactions self))"
    by (simp add: calc_current_balance_def balance_loop_split)
qed

lemma category_loop_acc:
  "foldl (\<lambda>category_list transaction.
              if category transaction = cat then category_list @ [transaction]
              else category_list) acc txns
   = acc @ filter (\<lambda>transaction. category transaction = cat) txns"
  by (induction txns arbitrary: acc) simp_all

text \<open>
  Claim C6, as stated, fails: neither \<open>Transaction.__init__\<close> nor \<open>category_filter\<close>
  normalises the case of a category. A transaction built with the category \<open>Food\<close>
  keeps it so, and is not returned for the argument \<open>food\<close>, its case-normalised form.
\<close>

theorem category_filter_case_counterexample:
  "Transaction_init ''2024-01-10'' ''expense'' (200::int) ''Food''
     = Inr \<lparr>date = (2024, 1, 10), txn_type = ''expense'', amount = 200, category = ''Food''\<rparr>
   \<and> lower ''Food'' = ''food''
   \<and> category_filter
        \<lparr>transactions =
           [\<lparr>date = (2024, 1, 10), txn_type = ''expense'', amount = 200::int,
             category = ''Food''\<rparr>]\<rparr>
        ''food'' = []"
  by code_simp

text \<open>
  Claim C6, amended. For every ledger and every argument, \<open>category_filter\<close> returns
  exactly the transactions whose stored category is equal to the argument, character
  for character and with no case normalisation, in the order of the ledger.
\<close>

theorem category_filter_exact:
  "category_filter self cat
   = filter (\<lambda>transaction. category transaction = cat) (transactions self)"
  by (simp add: category_filter_def category_loop_acc)

lemma date_test_single:
  "strptime date1 = Some start \<Longrightarrow> date_test date1 None t = Inr (date t = start)"
  by (simp add: date_test_def)

lemma date_test_range:
  "strptime date1 = Some start \<Longrightarrow> strptime date2 = Some stop \<Longrightarrow>
   date_test date1 (Some date2) t = Inr (start \<le> date t \<and> date t \<le> stop)"
  by (simp add: date_test_def)

lemma date_loop_ok:
  assumes "\<And>t. date_test date1 date2 t = Inr (P t)"
  shows "date_loop guard date1 date2 txns acc
         = Inr (acc @ filter (\<lambda>t. guard t \<and> P t) txns)"
  using assms by (induction txns arbitrary: acc) simp_all

lemma date_loop_single:
  "strptime date1 = Some start \<Longrightarrow>
   date_loop guard date1 None txns []
   = Inr (filter (\<lambda>t. guard t \<and> date t = start) txns)"
  by (simp add: date_loop_ok [of date1 None "\<lambda>t. date t = start", OF date_test_single])

lemma date_loop_range:
  "strptime date1 = Some start \<Longrightarrow> strptime date2 = Some stop \<Longrightarrow>
   date_loop guard date1 (Some date2) txns []
   = Inr (filter (\<lambda>t. guard t \<and> start \<le> date t \<and> date t \<le> stop) txns)"
  by (simp add: date_loop_ok [of date1 "Some date2"
        "\<lambda>t. start \<le> date t \<and> date t \<le> stop", OF date_test_range])

text \<open>
  Claim C4. For every ledger and valid date strings \<open>date1\<close> and \<open>date2\<close>, parsed
  as \<open>start\<close> and \<open>stop\<close>: \<open>date_filter\<close> with the end omitted returns exactly
  the transactions whose date is \<open>start\<close>; with both dates it returns exactly the
  transactions with \<open>start \<le> date \<le> stop\<close>; both results are sorted ascending by
  date; and with \<open>stop < start\<close> the result is the empty list, not an error.
\<close>

theorem date_filter_spec:
  assumes "strptime date1 = Some start" and "strptime date2 = Some stop"
  shows "(\<exists>r. date_filter self date1 None = Inr r
            \<and> mset r = filter_mset (\<lambda>t. date t = start) (mset (transactions self))
            \<and> sorted (map date r))
       \<and> (\<exists>r. date_filter self date1 (Some date2) = Inr r
            \<and> mset r = filter_mset (\<lambda>t. start \<le> date t \<and> date t \<le> stop)
                         (mset (transactions self))
            \<and> sorted (map date r)
            \<and> (stop < start \<longrightarrow> r = []))"
proof -
  have empty: "stop < start \<Longrightarrow>
      filter (\<lambda>t. start \<le> date t \<and> date t \<le> stop) (transactions self) = []"
    by (auto simp: filter_empty_conv)
  show ?thesis
    using empty
    by (simp add: date_filter_def sorted_by_date_def date_loop_single [OF assms(1)]
        date_loop_range [OF assms])
qed

theorem date_filter_spec_witness:
  "strptime ''2024-01-05'' = Some (2024, 1, 5) \<and>
   strptime ''2024-01-31'' = Some (2024, 1, 31) \<and>
   strptime ''2023-12-31'' = Some (2023, 12, 31) \<and>
   (\<exists>r. date_filter (tracker scenario_1) ''2024-01-05'' None = Inr r
       \<and> mset r = filter_mset (\<lambda>t. date t = (2024, 1, 5))
                    (mset (transactions (tracker scenario_1)))
       \<and> sorted (map date r)) \<and>
   (\<exists>r. date_filter (tracker scenario_1) ''2024-01-05'' (Some ''2024-01-31'') = Inr r
       \<and> mset r = filter_mset (\<lambda>t. (2024, 1, 5) \<le> date t \<and> date t \<le> (2024, 1, 31))
                    (mset (transactions (tracker scenario_1)))
       \<and> sorted (map date r)) \<and>
   (2023, 12, 31) < ((2024, 1, 5) :: datetime) \<and>
   date_filter (tracker scenario_1) ''2024-01-05'' (Some ''2023-12-31'') = Inr []"
proof -
  have h1: "strptime ''2024-01-05'' = Some (2024, 1, 5)" by code_simp
  have h2: "strptime ''2024-01-31'' = Some (2024, 1, 31)" by code_simp
  have h3: "strptime ''2023-12-31'' = Some (2023, 12, 31)" by code_simp
  have lt: "(2023, 12, 31) < ((2024, 1, 5) :: datetime)" by simp
  show ?thesis
    using h1 h2 h3 lt
      date_filter_spec [OF h1 h2, of "tracker scenario_1"]
      date_filter_spec [OF h1 h3, of "tracker scenario_1"]
    by auto
qed

section \<open>Net savings\<close>

text \<open>
  Claim C1. Whenever the transactions are in place (the object does not use a file, or
  the file is read without an error), \<open>monthly_net_savings\<close> returns a dictionary that
  has a (year, month) key exactly when both \<open>monthly_income\<close> and
  \<open>monthly_expenses\<close> have it, with the income of that month minus its expenses as
  the value; a month that only one of the two has is absent.
\<close>

theorem monthly_net_savings_intersection:
  assumes "sync_transactions env self = Inr self'"
  shows "\<exists>net income expenses.
           monthly_net_savings env self = Inr (net, self') \<and>
           monthly_income env self = Inr (income, self') \<and>
           monthly_expenses env self = Inr (expenses, self') \<and>
           distinct (map fst net) \<and> distinct (map fst income) \<and> distinct (map fst expenses) \<and>
           (\<forall>k. (k \<in> fst ` set net) = (k \<in> fst ` set income \<and> k \<in> fst ` set expenses)) \<and>
           (\<forall>k. map_of net k =
                  (case (map_of income k, map_of expenses k) of
                     (Some i, Some e) \<Rightarrow> Some (i - e)
                   | _ \<Rightarrow> None))"
proof -
  let ?T = "transactions (tracker self')"
  let ?income = "sorted_dict (monthly_basis_loop ''income'' ?T)"
  let ?expenses = "sorted_dict (monthly_basis_loop ''expense'' ?T)"
  let ?net = "sorted_dict (net_savings_loop ?income ?expenses)"
  have di: "distinct (map fst ?income)" and de: "distinct (map fst ?expenses)"
    by (simp_all add: distinct_sorted_dict distinct_monthly_basis_loop)
  have dn: "distinct (map fst ?net)"
    by (simp add: distinct_sorted_dict distinct_net_savings_loop)
  have val: "map_of ?net k =
                  (case (map_of ?income k, map_of ?expenses k) of
                     (Some i, Some e) \<Rightarrow> Some (i - e)
                   | _ \<Rightarrow> None)" for k
    by (simp add: map_of_sorted_dict [OF distinct_net_savings_loop]
        map_of_net_savings_loop [OF di de] split: option.splits)
  have keys: "(k \<in> fst ` set ?net) = (k \<in> fst ` set ?income \<and> k \<in> fst ` set ?expenses)" for k
  proof -
    have "(k \<in> fst ` set ?net) = (map_of ?net k \<noteq> None)"
      by (simp add: map_of_eq_None_iff)
    also have "\<dots> = (map_of ?income k \<noteq> None \<and> map_of ?expenses k \<noteq> None)"
      by (simp add: val split: option.splits)
    also have "\<dots> = (k \<in> fst ` set ?income \<and> k \<in> fst ` set ?expenses)"
      by (simp add: map_of_eq_None_iff)
    finally show ?thesis .
  qed
  have "monthly_net_savings env self = Inr (?net, self')"
    by (rule monthly_net_savings_synced [OF assms])
  moreover have "monthly_income env self = Inr (?income, self')"
    by (simp add: monthly_income_def monthly_basis_synced [OF assms])
  moreover have "monthly_expenses env self = Inr (?expenses, self')"
    by (simp add: monthly_expenses_def monthly_basis_synced [OF assms])
  ultimately show ?thesis
    using di de dn keys val by blast
qed

theorem monthly_net_savings_intersection_witness:
  "sync_transactions no_files scenario_1 = Inr scenario_1 \<and>
   (\<exists>net income expenses.
           monthly_net_savings no_files scenario_1 = Inr (net, scenario_1) \<and>
           monthly_income no_files scenario_1 = Inr (income, scenario_1) \<and>
           monthly_expenses no_files scenario_1 = Inr (expenses, scenario_1) \<and>
           distinct (map fst net) \<and> distinct (map fst income) \<and> distinct (map fst expenses) \<and>
           (\<forall>k. (k \<in> fst ` set net) = (k \<in> fst ` set income \<and> k \<in> fst ` set expenses)) \<and>
           (\<forall>k. map_of net k =
                  (case (map_of income k, map_of expenses k) of
                     (Some i, Some e) \<Rightarrow> Some (i - e)
                   | _ \<Rightarrow> None)))"
proof -
  have h: "sync_transactions no_files scenario_1 = Inr scenario_1"
    by code_simp
  show ?thesis
    using h monthly_net_savings_intersection [OF h] by blast
qed

section \<open>The aggregates\<close>

text \<open>
  Claim C5, as stated, fails in its second half. The categories are sorted as the
  strings they are stored as, by character code, and a category read from a file keeps
  its capitals: the totals of the file above have the keys \<open>Zebra\<close>, \<open>apple\<close>
  in this order, which is not the alphabetical order of their case-normalised forms.
\<close>

theorem category_order_counterexample:
  "sync_transactions one_file from_file = Inr (from_file\<lparr>tracker := tracker mixed_case\<rparr>)
   \<and> totals_each_income_category one_file from_file
     = Inr ([(''Zebra'', 300), (''apple'', 1500)], from_file\<lparr>tracker := tracker mixed_case\<rparr>)
   \<and> totals_each_income_category no_files mixed_case
     = Inr ([(''Zebra'', 300), (''apple'', 1500)], mixed_case)
   \<and> lower ''apple'' < lower ''Zebra''"
  by code_simp

text \<open>
  Claim C5, amended. Whenever the transactions are in place, the keys of
  \<open>monthly_income\<close> and of \<open>monthly_expenses\<close> are strictly increasing in the
  lexicographic order of (year, month), and the keys of \<open>totals_each_income_category\<close>
  and of \<open>totals_each_expense_category\<close> are strictly increasing in the order of the
  stored category strings by character code (capitals before small letters; no case
  normalisation takes place).
\<close>

theorem aggregate_keys_sorted:
  assumes "sync_transactions env self = Inr self'"
  shows "\<exists>income expenses income_totals expense_totals.
           monthly_income env self = Inr (income, self') \<and>
           monthly_expenses env self = Inr (expenses, self') \<and>
           totals_each_income_category env self = Inr (income_totals, self') \<and>
           totals_each_expense_category env self = Inr (expense_totals, self') \<and>
           sorted_wrt (<) (map fst income) \<and>
           sorted_wrt (<) (map fst expenses) \<and>
           sorted_wrt (<) (map fst income_totals) \<and>
           sorted_wrt (<) (map fst expense_totals)"
  by (simp add: monthly_income_def monthly_expenses_def totals_each_income_category_def
      totals_each_expense_category_def monthly_basis_synced [OF assms] totals_synced [OF assms]
      strict_sorted_dict distinct_monthly_basis_loop distinct_totals_loop)

theorem aggregate_keys_sorted_witness:
  "sync_transactions no_files mixed_case = Inr mixed_case \<and>
   (\<exists>income expenses income_totals expense_totals.
           monthly_income no_files mixed_case = Inr (income, mixed_case) \<and>
           monthly_expenses no_files mixed_case = Inr (expenses, mixed_case) \<and>
           totals_each_income_category no_files mixed_case = Inr (income_totals, mixed_case) \<and>
           totals_each_expense_category no_files mixed_case = Inr (expense_totals, mixed_case) \<and>
           sorted_wrt (<) (map fst income) \<and>
           sorted_wrt (<) (map fst expenses) \<and>
           sorted_wrt (<) (map fst income_totals) \<and>
           sorted_wrt (<) (map fst expense_totals))"
proof -
  have h: "sync_transactions no_files mixed_case = Inr mixed_case"
    by code_simp
  show ?thesis
    using h aggregate_keys_sorted [OF h] by blast
qed




text \<open>
  Claim C10. For every object with \<open>use_file = False\<close>, each of the seven aggregate
  operations returns a result and leaves the transactions of the tracker as they were:
  the same elements in the same order.
\<close>

theorem aggregates_keep_transactions:
  assumes "\<not> use_file self"
  shows "(\<exists>r self'. monthly_income env self = Inr (r, self')
            \<and> transactions (tracker self') = transactions (tracker self))
       \<and> (\<exists>r self'. monthly_expenses env self = Inr (r, self')
            \<and> transactions (tracker self') = transactions (tracker self))
       \<and> (\<exists>r self'. monthly_net_savings env self = Inr (r, self')
            \<and> transactions (tracker self') = transactions (tracker self))
       \<and> (\<exists>r self'. monthly_income_categories env self = Inr (r, self')
            \<and> transactions (tracker self') = transactions (tracker self))
       \<and> (\<exists>r self'. monthly_expenses_categories env self = Inr (r, self')
            \<and> transactions (tracker self') = transactions (tracker self))
       \<and> (\<exists>r self'. totals_each_income_category env self = Inr (r, self')
            \<and> transactions (tracker self') = transactions (tracker self))
       \<and> (\<exists>r self'. totals_each_expense_category env self = Inr (r, self')
            \<and> transactions (tracker self') = transactions (tracker self))"
proof -
  have s: "sync_transactions env self = Inr self"
    using assms by (rule sync_no_file)
  show ?thesis
    by (simp add: monthly_income_def monthly_expenses_def monthly_income_categories_def
        monthly_expenses_categories_def totals_each_income_category_def
        totals_each_expense_category_def monthly_basis_synced [OF s]
        monthly_categories_basis_synced [OF s] totals_synced [OF s]
        monthly_net_savings_synced [OF s])
qed

theorem aggregates_keep_transactions_witness:
  "\<not> use_file scenario_1
   \<and> (\<exists>r self'. monthly_income no_files scenario_1 = Inr (r, self')
        \<and> transactions (tracker self') = transactions (tracker scenario_1))
   \<and> (\<exists>r self'. monthly_expenses no_files scenario_1 = Inr (r, self')
        \<and> transactions (tracker self') = transactions (tracker scenario_1))
   \<and> (\<exists>r self'. monthly_net_savings no_files scenario_1 = Inr (r, self')
        \<and> transactions (tracker self') = transactions (tracker scenario_1))
   \<and> (\<exists>r self'. monthly_income_categories no_files scenario_1 = Inr (r, self')
        \<and> transactions (tracker self') = transactions (tracker scenario_1))
   \<and> (\<exists>r self'. monthly_expenses_categories no_files scenario_1 = Inr (r, self')
        \<and> transactions (tracker self') = transactions (tracker scenario_1))
   \<and> (\<exists>r self'. totals_each_income_category no_files scenario_1 = Inr (r, self')
        \<and> transactions (tracker self') = transactions (tracker scenario_1))
   \<and> (\<exists>r self'. totals_each_expense_category no_files scenario_1 = Inr (r, self')
        \<and> transactions (tracker self') = transactions (tracker scenario_1))"
proof -
  have h: "\<not> use_file scenario_1"
    by (simp add: scenario_1_def)
  show ?thesis
    using h aggregates_keep_transactions [OF h, of no_files] by blast
qed

section \<open>Failures of the filters\<close>






section \<open>The analysis report\<close>















section \<open>Category totals in exact arithmetic\<close>

text \<open>
  The totals by category add the amounts category by category, the total income adds
  them in the order of the ledger. The two sums agree when the addition of amounts is
  associative and commutative, which the addition of Python's \<open>float\<close> is not: the
  equality below is about amounts in exact arithmetic only.
\<close>

lemma sum_dict_add:
  fixes v :: "'a::comm_monoid_add"
  shows "sum_list (map snd (dict_add d k v)) = sum_list (map snd d) + v"
  by (induction d) (auto simp: dict_add_def ac_simps split: option.splits)

lemma sum_group_fold:
  fixes val :: "'x \<Rightarrow> 'a::comm_monoid_add"
  shows "sum_list (map snd (foldl (\<lambda>d x. if p x then dict_add d (key x) (val x) else d) acc xs))
         = sum_list (map snd acc) + sum_list (map val (filter p xs))"
  by (induction xs arbitrary: acc) (simp_all add: sum_dict_add ac_simps)

lemma sum_sorted_dict:
  fixes d :: "('k::linorder, 'a::comm_monoid_add) dict"
  assumes "distinct (map fst d)"
  shows "sum_list (map snd (sorted_dict d)) = sum_list (map snd d)"
proof -
  have "mset (map snd (sort_key fst d)) = mset (map snd d)"
    by simp
  then have "sum_mset (mset (map snd (sort_key fst d))) = sum_mset (mset (map snd d))"
    by (rule arg_cong)
  then show ?thesis
    by (simp only: sum_mset_sum_list sorted_dict_distinct [OF assms])
qed

lemma total_loop_sum:
  fixes acc :: "'a::comm_monoid_add"
  shows "foldl (\<lambda>s t. if p t then s + val t else s) acc xs
         = acc + sum_list (map val (filter p xs))"
  by (induction xs arbitrary: acc) (simp_all add: ac_simps)

lemma sum_totals_loop:
  fixes txns :: "'a::comm_monoid_add Transaction list"
  shows "sum_list (map snd (sorted_dict (totals_loop type_str txns)))
         = sum_list (map amount (filter (\<lambda>t. txn_type t = type_str) txns))"
proof -
  have "sum_list (map snd (sorted_dict (totals_loop type_str txns)))
        = sum_list (map snd (totals_loop type_str txns))"
    by (rule sum_sorted_dict [OF distinct_totals_loop])
  also have "\<dots> = sum_list (map amount (filter (\<lambda>t. txn_type t = type_str) txns))"
    unfolding totals_loop_def by (simp add: sum_group_fold)
  finally show ?thesis .
qed

lemma category_totals_sum_exact:
  fixes self :: "'a::comm_monoid_add ReportingAndAnalysis"
  assumes "sync_transactions env self = Inr self'"
  shows "\<exists>income_totals expense_totals.
           totals_each_income_category env self = Inr (income_totals, self') \<and>
           totals_each_expense_category env self = Inr (expense_totals, self') \<and>
           sum_list (map snd income_totals) = income_loop (transactions (tracker self')) \<and>
           sum_list (map snd expense_totals) = expense_loop (transactions (tracker self'))"
  by (simp add: totals_each_income_category_def totals_each_expense_category_def
      totals_synced [OF assms] sum_totals_loop income_loop_def expense_loop_def total_loop_sum)

end
